theory Spec2Isabelle
  imports Complex_Main
begin

section \<open>JavaScript values\<close>

text \<open>
  The metadata validator of \<^verbatim>\<open>memory.ts\<close> inspects its argument at run time
  (\<^verbatim>\<open>typeof\<close>, truthiness, \<^verbatim>\<open>Array.isArray\<close>), so the fields of a metadata object
  are modelled as dynamically typed values. A key that is missing from the object reads as
  \<open>JUndefined\<close>. Numbers are reals together with \<open>JNaN\<close>; the code under study only
  tests a number for truthiness and for its type.
\<close>

datatype jsval =
    JUndefined
  | JNull
  | JBool bool
  | JNum real
  | JNaN
  | JStr string
  | JArr "jsval list"
  | JObj "(string \<times> jsval) list"

text \<open>ToBoolean: what \<^verbatim>\<open>if (v)\<close>, \<^verbatim>\<open>!v\<close> and \<^verbatim>\<open>v && ...\<close> test.\<close>

fun truthy :: "jsval \<Rightarrow> bool" where
  "truthy JUndefined = False"
| "truthy JNull = False"
| "truthy (JBool b) = b"
| "truthy (JNum r) = (r \<noteq> 0)"
| "truthy JNaN = False"
| "truthy (JStr s) = (s \<noteq> [])"
| "truthy (JArr xs) = True"
| "truthy (JObj kvs) = True"

fun typeof :: "jsval \<Rightarrow> string" where
  "typeof JUndefined = ''undefined''"
| "typeof JNull = ''object''"
| "typeof (JBool b) = ''boolean''"
| "typeof (JNum r) = ''number''"
| "typeof JNaN = ''number''"
| "typeof (JStr s) = ''string''"
| "typeof (JArr xs) = ''object''"
| "typeof (JObj kvs) = ''object''"

fun Array_isArray :: "jsval \<Rightarrow> bool" where
  "Array_isArray (JArr xs) = True"
| "Array_isArray v = False"

text \<open>
  \<^verbatim>\<open>[s1, ..., sn].includes(v)\<close> on an array of string literals: only a string can be
  equal to one of the elements.
\<close>

fun array_includes :: "string list \<Rightarrow> jsval \<Rightarrow> bool" where
  "array_includes xs (JStr s) = (s \<in> set xs)"
| "array_includes xs v = False"

section \<open>Data model\<close>

text \<open>
  Modelled from the spec: the types \<^verbatim>\<open>Memory\<close>, \<^verbatim>\<open>KnowledgeMetadata\<close>, \<^verbatim>\<open>MemoryType\<close>
  and \<^verbatim>\<open>UUID\<close> are declared in \<^verbatim>\<open>types.ts\<close>, which is not among the sources. The
  records below have the fields of section 3 of the specification, which are the fields
  that \<^verbatim>\<open>memory.ts\<close> reads and writes. An identifier is a string; an optional field of
  a memory is an \<open>option\<close>. The fields of the metadata are dynamically typed values,
  since the validator tests their types at run time.
\<close>

type_synonym UUID = string

text \<open>A thrown \<^verbatim>\<open>Error\<close> with its message.\<close>

datatype error = Error string

record KnowledgeMetadata =
  md_type :: jsval
  md_sourceId :: jsval
  md_chunkIndex :: jsval
  md_source :: jsval
  md_scope :: jsval
  md_tags :: jsval
  md_timestamp :: jsval

record Content =
  content_text :: string
  content_metadata :: "KnowledgeMetadata option"

record Memory =
  mem_id :: UUID
  agentId :: "UUID option"
  roomId :: UUID
  content :: Content
  embedding :: "real list option"

text \<open>Truthiness of an optional identifier, as in \<^verbatim>\<open>memory.agentId ? ... : ...\<close>.\<close>

fun truthy_id :: "UUID option \<Rightarrow> bool" where
  "truthy_id None = False"
| "truthy_id (Some u) = (u \<noteq> [])"

section \<open>The runtime: Embedder, Store, clock and logger\<close>

text \<open>
  The Store (\<^verbatim>\<open>runtime.databaseAdapter\<close>) and the Embedder
  (\<^verbatim>\<open>runtime.useModel(ModelClass.TEXT_EMBEDDING, _)\<close>) live outside \<^verbatim>\<open>memory.ts\<close>;
  they are parameters of the model. Each is a function on an external world \<open>'w\<close> that
  either throws (\<open>Inl\<close>) or returns (\<open>Inr\<close>) and leaves a new world. The argument of the
  Embedder is \<open>Some text\<close> or \<open>None\<close> for \<^verbatim>\<open>null\<close>. \<^verbatim>\<open>Date.now()\<close> reads the
  world.
\<close>

record 'w IAgentRuntime =
  rt_agentId :: "UUID option"
  useModel :: "string option \<Rightarrow> 'w \<Rightarrow> (error + real list) \<times> 'w"
  db_getMemoryById :: "UUID \<Rightarrow> 'w \<Rightarrow> (error + Memory option) \<times> 'w"
  db_createMemory :: "Memory \<Rightarrow> string \<Rightarrow> bool \<Rightarrow> 'w \<Rightarrow> (error + unit) \<times> 'w"
  Date_now :: "'w \<Rightarrow> real"

record 'w MemoryManager =
  runtime :: "'w IAgentRuntime"
  tableName :: string

text \<open>Every call that leaves the manager is recorded, with its arguments, in order.\<close>

datatype call =
    DbGetMemoryById UUID
  | DbCreateMemory Memory string bool
  | UseModel "string option"
  | LoggerDebug string
  | LoggerLog string UUID string
  | LoggerError string error

record 'w state =
  world :: 'w
  trace :: "call list"

definition logger :: "call \<Rightarrow> 'w state \<Rightarrow> 'w state" where
  "logger c s = s\<lparr>trace := trace s @ [c]\<rparr>"

definition call_useModel ::
  "'w IAgentRuntime \<Rightarrow> string option \<Rightarrow> 'w state \<Rightarrow> (error + real list) \<times> 'w state" where
  "call_useModel rt x s =
     (case useModel rt x (world s) of
        (r, w') \<Rightarrow> (r, \<lparr>world = w', trace = trace s @ [UseModel x]\<rparr>))"

definition call_db_getMemoryById ::
  "'w IAgentRuntime \<Rightarrow> UUID \<Rightarrow> 'w state \<Rightarrow> (error + Memory option) \<times> 'w state" where
  "call_db_getMemoryById rt i s =
     (case db_getMemoryById rt i (world s) of
        (r, w') \<Rightarrow> (r, \<lparr>world = w', trace = trace s @ [DbGetMemoryById i]\<rparr>))"

definition call_db_createMemory ::
  "'w IAgentRuntime \<Rightarrow> Memory \<Rightarrow> string \<Rightarrow> bool \<Rightarrow> 'w state \<Rightarrow> (error + unit) \<times> 'w state" where
  "call_db_createMemory rt m tbl u s =
     (case db_createMemory rt m tbl u (world s) of
        (r, w') \<Rightarrow> (r, \<lparr>world = w', trace = trace s @ [DbCreateMemory m tbl u]\<rparr>))"

section \<open>MemoryManager\<close>

subsection \<open>validateMetadata\<close>

definition validateMetadata :: "KnowledgeMetadata \<Rightarrow> error + unit" where
  \<open>validateMetadata metadata =
     (if \<not> truthy (md_type metadata)
         \<or> \<not> array_includes [''document'', ''fragment'', ''message'', ''fact''] (md_type metadata)
      then Inl (Error ''Invalid memory type'')
      else if truthy (md_sourceId metadata) \<and> typeof (md_sourceId metadata) \<noteq> ''string''
      then Inl (Error ''Metadata sourceId must be a UUID string'')
      else if md_chunkIndex metadata \<noteq> JUndefined \<and> typeof (md_chunkIndex metadata) \<noteq> ''number''
      then Inl (Error ''Metadata chunkIndex must be a number'')
      else if truthy (md_source metadata) \<and> typeof (md_source metadata) \<noteq> ''string''
      then Inl (Error ''Metadata source must be a string'')
      else if truthy (md_scope metadata)
              \<and> \<not> array_includes [''shared'', ''private'', ''room''] (md_scope metadata)
      then Inl (Error ''Metadata scope must be "shared", "private", or "room"'')
      else if truthy (md_tags metadata) \<and> \<not> Array_isArray (md_tags metadata)
      then Inl (Error ''Metadata tags must be an array of strings'')
      else Inr ())\<close>

subsection \<open>addEmbeddingToMemory\<close>

text \<open>
  The function returns its (mutated) argument. Where it throws, no assignment to the
  argument has happened yet.
\<close>

definition addEmbeddingToMemory ::
  "'w MemoryManager \<Rightarrow> Memory \<Rightarrow> 'w state \<Rightarrow> (error + Memory) \<times> 'w state" where
  "addEmbeddingToMemory this memory s0 =
     (case embedding memory of
        Some e \<Rightarrow> (Inr memory, s0)
      | None \<Rightarrow>
          (let memoryText = content_text (content memory) in
           if memoryText = []
           then (Inl (Error ''Cannot generate embedding: Memory content is empty''), s0)
           else
             (case call_useModel (runtime this) (Some memoryText) s0 of
                (Inr v, s1) \<Rightarrow> (Inr (memory\<lparr>embedding := Some v\<rparr>), s1)
              | (Inl err, s1) \<Rightarrow>
                  (case call_useModel (runtime this) None
                          (logger (LoggerError ''Failed to generate embedding:'' err) s1) of
                     (Inr v, s2) \<Rightarrow> (Inr (memory\<lparr>embedding := Some v\<rparr>), s2)
                   | (Inl err2, s2) \<Rightarrow> (Inl err2, s2)))))"

subsection \<open>createMemory\<close>

text \<open>Lines 257-269: the \<^verbatim>\<open>switch\<close> compares with strict equality.\<close>

definition getTableNameForType :: "'w MemoryManager \<Rightarrow> jsval \<Rightarrow> string" where
  "getTableNameForType this t =
     (if t = JStr ''document'' then ''knowledge''
      else if t = JStr ''fragment'' then ''knowledge''
      else if t = JStr ''message'' then ''messages''
      else if t = JStr ''fact'' then ''facts''
      else tableName this)"

text \<open>Lines 212-217: the object assigned when \<^verbatim>\<open>memory.content.metadata\<close> is falsy.\<close>

definition defaultMetadata :: "'w MemoryManager \<Rightarrow> Memory \<Rightarrow> 'w \<Rightarrow> KnowledgeMetadata" where
  "defaultMetadata this memory w =
     \<lparr>md_type = JStr (if tableName this = ''knowledge'' then ''document'' else ''message''),
      md_sourceId = JUndefined,
      md_chunkIndex = JUndefined,
      md_source = JStr (tableName this),
      md_scope = JStr (if truthy_id (agentId memory) then ''private'' else ''shared''),
      md_tags = JUndefined,
      md_timestamp = JNum (Date_now (runtime this) w)\<rparr>"

text \<open>Lines 211-218: \<^verbatim>\<open>memory.content.metadata\<close> after the first \<^verbatim>\<open>if\<close>.\<close>

definition initMetadata :: "'w MemoryManager \<Rightarrow> Memory \<Rightarrow> 'w \<Rightarrow> KnowledgeMetadata" where
  "initMetadata this memory w =
     (case content_metadata (content memory) of
        None \<Rightarrow> defaultMetadata this memory w
      | Some md \<Rightarrow> md)"

text \<open>Lines 225-238: the three assignments that follow a successful validation.\<close>

definition ensureTimestamp :: "'w MemoryManager \<Rightarrow> 'w \<Rightarrow> KnowledgeMetadata \<Rightarrow> KnowledgeMetadata" where
  "ensureTimestamp this w md =
     (if \<not> truthy (md_timestamp md)
      then md\<lparr>md_timestamp := JNum (Date_now (runtime this) w)\<rparr> else md)"

definition ensureScope :: "Memory \<Rightarrow> KnowledgeMetadata \<Rightarrow> KnowledgeMetadata" where
  "ensureScope memory md =
     (if \<not> truthy (md_scope md)
      then md\<lparr>md_scope := JStr (if truthy_id (agentId memory) then ''private'' else ''shared'')\<rparr>
      else md)"

definition ensureSource :: "'w MemoryManager \<Rightarrow> KnowledgeMetadata \<Rightarrow> KnowledgeMetadata" where
  "ensureSource this md =
     (if \<not> truthy (md_source md) then md\<lparr>md_source := JStr (tableName this)\<rparr> else md)"

definition backfillMetadata ::
  "'w MemoryManager \<Rightarrow> Memory \<Rightarrow> 'w \<Rightarrow> KnowledgeMetadata \<Rightarrow> KnowledgeMetadata" where
  "backfillMetadata this memory w md =
     ensureSource this (ensureScope memory (ensureTimestamp this w md))"

text \<open>Lines 243-245: the embedding step of \<^verbatim>\<open>createMemory\<close>.\<close>

definition ensureEmbedding ::
  "'w MemoryManager \<Rightarrow> Memory \<Rightarrow> 'w state \<Rightarrow> (error + Memory) \<times> 'w state" where
  "ensureEmbedding this memory s =
     (case embedding memory of
        Some e \<Rightarrow> (Inr memory, s)
      | None \<Rightarrow>
          (case call_useModel (runtime this) None s of
             (Inl err, s') \<Rightarrow> (Inl err, s')
           | (Inr v, s') \<Rightarrow> (Inr (memory\<lparr>embedding := Some v\<rparr>), s')))"

text \<open>
  \<^verbatim>\<open>createMemory\<close> returns nothing, but it assigns to the fields of its argument. The
  model returns the outcome, the argument object as the call leaves it, and the state.
  After lines 211-218 \<^verbatim>\<open>memory.content.metadata\<close> is an object, so the test of line 221
  always succeeds; \<open>memory1\<close> is the argument at that point and \<open>md\<close> its metadata.
\<close>

definition createMemory ::
  "'w MemoryManager \<Rightarrow> Memory \<Rightarrow> bool \<Rightarrow> 'w state \<Rightarrow> (error + unit) \<times> Memory \<times> 'w state" where
  "createMemory this memory unique s0 =
     (case call_db_getMemoryById (runtime this) (mem_id memory) s0 of
        (Inl err, s1) \<Rightarrow> (Inl err, memory, s1)
      | (Inr (Some existingMessage), s1) \<Rightarrow>
          (Inr (), memory, logger (LoggerDebug ''Memory already exists, skipping'') s1)
      | (Inr None, s1) \<Rightarrow>
          (let md = initMetadata this memory (world s1);
               memory1 = memory\<lparr>content := (content memory)\<lparr>content_metadata := Some md\<rparr>\<rparr>
           in
           case validateMetadata md of
             Inl err \<Rightarrow> (Inl err, memory1, s1)
           | Inr ok \<Rightarrow>
               (let md' = backfillMetadata this memory1 (world s1) md;
                    memory2 = memory1\<lparr>content := (content memory1)
                                 \<lparr>content_metadata := Some md'\<rparr>\<rparr>;
                    s2 = logger (LoggerLog ''Creating Memory'' (mem_id memory2)
                                   (content_text (content memory2))) s1
                in
                case ensureEmbedding this memory2 s2 of
                  (Inl err, s3) \<Rightarrow> (Inl err, memory2, s3)
                | (Inr memory3, s3) \<Rightarrow>
                    (case call_db_createMemory (runtime this) memory3
                            (getTableNameForType this (md_type md')) unique s3 of
                       (r, s4) \<Rightarrow> (r, memory3, s4)))))"

subsection \<open>getMemoryById\<close>

definition getMemoryById ::
  "'w MemoryManager \<Rightarrow> UUID \<Rightarrow> 'w state \<Rightarrow> (error + Memory option) \<times> 'w state" where
  "getMemoryById this i s0 =
     (case call_db_getMemoryById (runtime this) i s0 of
        (Inl err, s1) \<Rightarrow> (Inl err, s1)
      | (Inr result, s1) \<Rightarrow>
          (case result of
             Some r \<Rightarrow>
               (if agentId r \<noteq> rt_agentId (runtime this) then (Inr None, s1)
                else (Inr result, s1))
           | None \<Rightarrow> (Inr result, s1)))"

section \<open>Derived notions\<close>

text \<open>
  The argument of \<^verbatim>\<open>createMemory\<close> when it reaches line 241: its metadata have been
  initialised, validated and backfilled; nothing else has been assigned.
\<close>

definition prepared :: "'w MemoryManager \<Rightarrow> Memory \<Rightarrow> 'w \<Rightarrow> Memory" where
  "prepared this m w =
     m\<lparr>content := (content m)
         \<lparr>content_metadata := Some (backfillMetadata this m w (initMetadata this m w))\<rparr>\<rparr>"

section \<open>A concrete runtime\<close>

text \<open>
  An in-memory Store (the list of the records created so far, each with its partition), an
  Embedder that fails on the text \<open>boom\<close>, answers \<open>[1, 2, 3]\<close> on any other text and the
  zero vector on \<^verbatim>\<open>null\<close>, and a clock that stands still. The general theorems below are
  instantiated on it.
\<close>

definition example_runtime :: "(Memory \<times> string) list IAgentRuntime" where
  "example_runtime =
     \<lparr>rt_agentId = Some ''a1'',
      useModel = (\<lambda>x w. (case x of
                             None \<Rightarrow> Inr [0, 0, 0]
                           | Some t \<Rightarrow> if t = ''boom'' then Inl (Error ''embedder down'')
                                       else Inr [1, 2, 3], w)),
      db_getMemoryById = (\<lambda>i w. (Inr (map_option fst (find (\<lambda>p. mem_id (fst p) = i) w)), w)),
      db_createMemory = (\<lambda>m tbl u w. (Inr (), w @ [(m, tbl)])),
      Date_now = (\<lambda>w. 1700000000000)\<rparr>"

definition example_manager :: "(Memory \<times> string) list MemoryManager" where
  "example_manager = \<lparr>runtime = example_runtime, tableName = ''knowledge''\<rparr>"

definition example_other_manager :: "(Memory \<times> string) list MemoryManager" where
  "example_other_manager =
     \<lparr>runtime = example_runtime\<lparr>rt_agentId := Some ''a2''\<rparr>, tableName = ''messages''\<rparr>"

definition example_memory :: Memory where
  "example_memory =
     \<lparr>mem_id = ''m1'', agentId = Some ''a1'', roomId = ''r1'',
      content = \<lparr>content_text = ''hello'', content_metadata = None\<rparr>,
      embedding = None\<rparr>"

definition example_changed :: Memory where
  "example_changed =
     \<lparr>mem_id = ''m1'', agentId = Some ''a1'', roomId = ''r1'',
      content = \<lparr>content_text = ''changed'', content_metadata = None\<rparr>,
      embedding = None\<rparr>"

definition example_boom :: Memory where
  "example_boom =
     \<lparr>mem_id = ''m3'', agentId = Some ''a1'', roomId = ''r1'',
      content = \<lparr>content_text = ''boom'', content_metadata = None\<rparr>,
      embedding = None\<rparr>"

definition example_stored :: Memory where
  "example_stored =
     \<lparr>mem_id = ''m1'', agentId = Some ''a1'', roomId = ''r1'',
      content = \<lparr>content_text = ''first'', content_metadata = None\<rparr>,
      embedding = Some [0, 0, 0]\<rparr>"

definition example_shared :: Memory where
  "example_shared =
     \<lparr>mem_id = ''m2'', agentId = None, roomId = ''r1'',
      content = \<lparr>content_text = ''for everyone'', content_metadata = None\<rparr>,
      embedding = Some [0, 0, 0]\<rparr>"

definition example_fact_metadata :: KnowledgeMetadata where
  "example_fact_metadata =
     \<lparr>md_type = JStr ''fact'', md_sourceId = JUndefined, md_chunkIndex = JUndefined,
      md_source = JStr ''import'', md_scope = JUndefined, md_tags = JUndefined,
      md_timestamp = JUndefined\<rparr>"



definition example_fact :: Memory where
  "example_fact =
     \<lparr>mem_id = ''m4'', agentId = Some ''a1'', roomId = ''r1'',
      content = \<lparr>content_text = ''water is wet'',
                 content_metadata = Some example_fact_metadata\<rparr>,
      embedding = None\<rparr>"

definition example_unnamed_agent :: Memory where
  "example_unnamed_agent =
     \<lparr>mem_id = ''m6'', agentId = Some [], roomId = ''r1'',
      content = \<lparr>content_text = ''whose is this'', content_metadata = None\<rparr>,
      embedding = None\<rparr>"

definition example_epoch :: Memory where
  "example_epoch =
     \<lparr>mem_id = ''m5'', agentId = Some ''a1'', roomId = ''r1'',
      content = \<lparr>content_text = ''old news'',
                 content_metadata = Some (example_fact_metadata\<lparr>md_timestamp := JNum 0\<rparr>)\<rparr>,
      embedding = None\<rparr>"

text \<open>The records that \<^verbatim>\<open>createMemory\<close> hands to the Store for three of these.\<close>

definition example_memory_persisted :: Memory where
  "example_memory_persisted =
     \<lparr>mem_id = ''m1'', agentId = Some ''a1'', roomId = ''r1'',
      content = \<lparr>content_text = ''hello'',
                 content_metadata = Some
                   \<lparr>md_type = JStr ''document'', md_sourceId = JUndefined,
                    md_chunkIndex = JUndefined, md_source = JStr ''knowledge'',
                    md_scope = JStr ''private'', md_tags = JUndefined,
                    md_timestamp = JNum 1700000000000\<rparr>\<rparr>,
      embedding = Some [0, 0, 0]\<rparr>"

definition example_fact_persisted :: Memory where
  "example_fact_persisted =
     \<lparr>mem_id = ''m4'', agentId = Some ''a1'', roomId = ''r1'',
      content = \<lparr>content_text = ''water is wet'',
                 content_metadata = Some
                   \<lparr>md_type = JStr ''fact'', md_sourceId = JUndefined,
                    md_chunkIndex = JUndefined, md_source = JStr ''import'',
                    md_scope = JStr ''private'', md_tags = JUndefined,
                    md_timestamp = JNum 1700000000000\<rparr>\<rparr>,
      embedding = Some [0, 0, 0]\<rparr>"

definition example_epoch_persisted :: Memory where
  "example_epoch_persisted =
     \<lparr>mem_id = ''m5'', agentId = Some ''a1'', roomId = ''r1'',
      content = \<lparr>content_text = ''old news'',
                 content_metadata = Some
                   \<lparr>md_type = JStr ''fact'', md_sourceId = JUndefined,
                    md_chunkIndex = JUndefined, md_source = JStr ''import'',
                    md_scope = JStr ''private'', md_tags = JUndefined,
                    md_timestamp = JNum 1700000000000\<rparr>\<rparr>,
      embedding = Some [0, 0, 0]\<rparr>"

definition example_state :: "(Memory \<times> string) list state" where
  "example_state = \<lparr>world = [], trace = []\<rparr>"

definition example_state_stored :: "(Memory \<times> string) list state" where
  "example_state_stored =
     \<lparr>world = [(example_stored, ''knowledge''), (example_shared, ''knowledge'')], trace = []\<rparr>"

lemmas example_defs =
  example_runtime_def example_manager_def example_memory_def example_stored_def
  example_shared_def example_fact_metadata_def example_fact_def example_memory_persisted_def
  example_fact_persisted_def example_state_def example_state_stored_def

lemmas createMemory_defs =
  createMemory_def call_db_getMemoryById_def call_db_createMemory_def call_useModel_def
  ensureEmbedding_def logger_def Let_def initMetadata_def defaultMetadata_def
  backfillMetadata_def ensureSource_def ensureScope_def ensureTimestamp_def
  getTableNameForType_def validateMetadata_def

section \<open>The validator as a predicate\<close>

lemma if_Inl_eq_Inr: "((if c then Inl e else x) = Inr u) = (\<not> c \<and> x = Inr u)"
  by simp

lemma type_includes_iff:
  "(truthy t \<and> array_includes [''document'', ''fragment'', ''message'', ''fact''] t)
     \<longleftrightarrow> t \<in> {JStr ''document'', JStr ''fragment'', JStr ''message'', JStr ''fact''}"
  by (cases t) auto

lemma scope_includes_iff:
  "array_includes [''shared'', ''private'', ''room''] t
     \<longleftrightarrow> t \<in> {JStr ''shared'', JStr ''private'', JStr ''room''}"
  by (cases t) auto

lemma validateMetadata_ok_raw:
  "validateMetadata md = Inr () \<longleftrightarrow>
     (truthy (md_type md)
        \<and> array_includes [''document'', ''fragment'', ''message'', ''fact''] (md_type md))
   \<and> \<not> (truthy (md_sourceId md) \<and> typeof (md_sourceId md) \<noteq> ''string'')
   \<and> \<not> (md_chunkIndex md \<noteq> JUndefined \<and> typeof (md_chunkIndex md) \<noteq> ''number'')
   \<and> \<not> (truthy (md_source md) \<and> typeof (md_source md) \<noteq> ''string'')
   \<and> \<not> (truthy (md_scope md) \<and> \<not> array_includes [''shared'', ''private'', ''room''] (md_scope md))
   \<and> \<not> (truthy (md_tags md) \<and> \<not> Array_isArray (md_tags md))"
  unfolding validateMetadata_def by (simp only: if_Inl_eq_Inr simp_thms de_Morgan_disj)

lemma validateMetadata_ok_iff:
  "validateMetadata md = Inr () \<longleftrightarrow>
     md_type md \<in> {JStr ''document'', JStr ''fragment'', JStr ''message'', JStr ''fact''}
   \<and> \<not> (truthy (md_sourceId md) \<and> typeof (md_sourceId md) \<noteq> ''string'')
   \<and> \<not> (md_chunkIndex md \<noteq> JUndefined \<and> typeof (md_chunkIndex md) \<noteq> ''number'')
   \<and> \<not> (truthy (md_source md) \<and> typeof (md_source md) \<noteq> ''string'')
   \<and> \<not> (truthy (md_scope md) \<and> md_scope md \<notin> {JStr ''shared'', JStr ''private'', JStr ''room''})
   \<and> \<not> (truthy (md_tags md) \<and> \<not> Array_isArray (md_tags md))"
  by (simp only: validateMetadata_ok_raw type_includes_iff scope_includes_iff)



lemma validateMetadata_defaultMetadata: "validateMetadata (defaultMetadata this m w) = Inr ()"
  by (simp add: validateMetadata_ok_iff defaultMetadata_def)

section \<open>Metadata defaults\<close>

lemma backfillMetadata_content [simp]:
  "backfillMetadata this (m\<lparr>content := c\<rparr>) w md = backfillMetadata this m w md"
  by (simp add: backfillMetadata_def ensureScope_def)

lemma md_type_backfill [simp]: "md_type (backfillMetadata this m w md) = md_type md"
  by (simp add: backfillMetadata_def ensureSource_def ensureScope_def ensureTimestamp_def)

lemma backfill_defaultMetadata:
  "backfillMetadata this m w (defaultMetadata this m w) = defaultMetadata this m w"
  by (simp add: backfillMetadata_def ensureSource_def ensureScope_def ensureTimestamp_def
      defaultMetadata_def)

lemma content_prepared [simp]:
  "content_metadata (content (prepared this m w))
     = Some (backfillMetadata this m w (initMetadata this m w))"
  "content_metadata (content ((prepared this m w)\<lparr>embedding := x\<rparr>))
     = Some (backfillMetadata this m w (initMetadata this m w))"
  by (simp_all add: prepared_def)

section \<open>The paths through createMemory\<close>

text \<open>One equation for each way the call can end, under the conditions that select it.\<close>

lemma createMemory_lookup_fails:
  assumes "db_getMemoryById (runtime this) (mem_id m) (world s0) = (Inl e, w1)"
  shows "createMemory this m u s0 =
           (Inl e, m, \<lparr>world = w1, trace = trace s0 @ [DbGetMemoryById (mem_id m)]\<rparr>)"
  using assms by (simp add: createMemory_def call_db_getMemoryById_def)

lemma createMemory_existing:
  assumes "db_getMemoryById (runtime this) (mem_id m) (world s0) = (Inr (Some r), w1)"
  shows "createMemory this m u s0 =
           (Inr (), m,
            \<lparr>world = w1,
             trace = trace s0 @ [DbGetMemoryById (mem_id m),
                                 LoggerDebug ''Memory already exists, skipping'']\<rparr>)"
  using assms by (simp add: createMemory_def call_db_getMemoryById_def logger_def)

lemma createMemory_invalid:
  assumes "db_getMemoryById (runtime this) (mem_id m) (world s0) = (Inr None, w1)"
    and "validateMetadata (initMetadata this m w1) = Inl e"
  shows "createMemory this m u s0 =
           (Inl e, m\<lparr>content := (content m)\<lparr>content_metadata := Some (initMetadata this m w1)\<rparr>\<rparr>,
            \<lparr>world = w1, trace = trace s0 @ [DbGetMemoryById (mem_id m)]\<rparr>)"
  using assms by (simp add: createMemory_def call_db_getMemoryById_def Let_def)

lemma createMemory_with_embedding:
  assumes "db_getMemoryById (runtime this) (mem_id m) (world s0) = (Inr None, w1)"
    and "validateMetadata (initMetadata this m w1) = Inr ()"
    and "embedding m = Some e"
    and "db_createMemory (runtime this) (prepared this m w1)
           (getTableNameForType this (md_type (initMetadata this m w1))) u w1 = (r, w2)"
  shows "createMemory this m u s0 =
           (r, prepared this m w1,
            \<lparr>world = w2,
             trace = trace s0 @
               [DbGetMemoryById (mem_id m),
                LoggerLog ''Creating Memory'' (mem_id m) (content_text (content m)),
                DbCreateMemory (prepared this m w1)
                  (getTableNameForType this (md_type (initMetadata this m w1))) u]\<rparr>)"
  using assms
  by (simp add: createMemory_def call_db_getMemoryById_def call_db_createMemory_def
      ensureEmbedding_def logger_def Let_def prepared_def)

lemma createMemory_embedder_fails:
  assumes "db_getMemoryById (runtime this) (mem_id m) (world s0) = (Inr None, w1)"
    and "validateMetadata (initMetadata this m w1) = Inr ()"
    and "embedding m = None"
    and "useModel (runtime this) None w1 = (Inl e, w2)"
  shows "createMemory this m u s0 =
           (Inl e, prepared this m w1,
            \<lparr>world = w2,
             trace = trace s0 @
               [DbGetMemoryById (mem_id m),
                LoggerLog ''Creating Memory'' (mem_id m) (content_text (content m)),
                UseModel None]\<rparr>)"
  using assms
  by (simp add: createMemory_def call_db_getMemoryById_def call_useModel_def
      ensureEmbedding_def logger_def Let_def prepared_def)

lemma createMemory_without_embedding:
  assumes "db_getMemoryById (runtime this) (mem_id m) (world s0) = (Inr None, w1)"
    and "validateMetadata (initMetadata this m w1) = Inr ()"
    and "embedding m = None"
    and "useModel (runtime this) None w1 = (Inr v, w2)"
    and "db_createMemory (runtime this) ((prepared this m w1)\<lparr>embedding := Some v\<rparr>)
           (getTableNameForType this (md_type (initMetadata this m w1))) u w2 = (r, w3)"
  shows "createMemory this m u s0 =
           (r, (prepared this m w1)\<lparr>embedding := Some v\<rparr>,
            \<lparr>world = w3,
             trace = trace s0 @
               [DbGetMemoryById (mem_id m),
                LoggerLog ''Creating Memory'' (mem_id m) (content_text (content m)),
                UseModel None,
                DbCreateMemory ((prepared this m w1)\<lparr>embedding := Some v\<rparr>)
                  (getTableNameForType this (md_type (initMetadata this m w1))) u]\<rparr>)"
  using assms
  by (simp add: createMemory_def call_db_getMemoryById_def call_useModel_def
      call_db_createMemory_def ensureEmbedding_def logger_def Let_def prepared_def)

text \<open>
  A call that finds no record and passes validation ends in one of three ways, according to
  the argument's embedding and the Embedder's answer to \<^verbatim>\<open>null\<close>.
\<close>

lemma createMemory_fresh_cases [consumes 2, case_names with_embedding embedder_fails without_embedding]:
  assumes fresh: "db_getMemoryById (runtime this) (mem_id m) (world s0) = (Inr None, w1)"
    and valid: "validateMetadata (initMetadata this m w1) = Inr ()"
  obtains
    e r w2 where "embedding m = Some e"
      and "createMemory this m u s0 =
             (r, prepared this m w1,
              \<lparr>world = w2,
               trace = trace s0 @
                 [DbGetMemoryById (mem_id m),
                  LoggerLog ''Creating Memory'' (mem_id m) (content_text (content m)),
                  DbCreateMemory (prepared this m w1)
                    (getTableNameForType this (md_type (initMetadata this m w1))) u]\<rparr>)"
  | e w2 where "embedding m = None" and "useModel (runtime this) None w1 = (Inl e, w2)"
      and "createMemory this m u s0 =
             (Inl e, prepared this m w1,
              \<lparr>world = w2,
               trace = trace s0 @
                 [DbGetMemoryById (mem_id m),
                  LoggerLog ''Creating Memory'' (mem_id m) (content_text (content m)),
                  UseModel None]\<rparr>)"
  | v r w2 w3 where "embedding m = None" and "useModel (runtime this) None w1 = (Inr v, w2)"
      and "createMemory this m u s0 =
             (r, (prepared this m w1)\<lparr>embedding := Some v\<rparr>,
              \<lparr>world = w3,
               trace = trace s0 @
                 [DbGetMemoryById (mem_id m),
                  LoggerLog ''Creating Memory'' (mem_id m) (content_text (content m)),
                  UseModel None,
                  DbCreateMemory ((prepared this m w1)\<lparr>embedding := Some v\<rparr>)
                    (getTableNameForType this (md_type (initMetadata this m w1))) u]\<rparr>)"
proof (cases "embedding m")
  case (Some e)
  obtain r w2 where cr: "db_createMemory (runtime this) (prepared this m w1)
      (getTableNameForType this (md_type (initMetadata this m w1))) u w1 = (r, w2)"
    by (cases "db_createMemory (runtime this) (prepared this m w1)
      (getTableNameForType this (md_type (initMetadata this m w1))) u w1")
  from that(1) [OF Some createMemory_with_embedding [OF fresh valid Some cr]]
  show ?thesis .
next
  case None
  obtain r2 w2 where emb: "useModel (runtime this) None w1 = (r2, w2)"
    by (cases "useModel (runtime this) None w1")
  show ?thesis
  proof (cases r2)
    case (Inl e)
    with emb have emb': "useModel (runtime this) None w1 = (Inl e, w2)" by simp
    from that(2) [OF None emb' createMemory_embedder_fails [OF fresh valid None emb']]
    show ?thesis .
  next
    case (Inr v)
    with emb have emb': "useModel (runtime this) None w1 = (Inr v, w2)" by simp
    obtain r w3 where cr: "db_createMemory (runtime this)
        ((prepared this m w1)\<lparr>embedding := Some v\<rparr>)
        (getTableNameForType this (md_type (initMetadata this m w1))) u w2 = (r, w3)"
      by (cases "db_createMemory (runtime this)
        ((prepared this m w1)\<lparr>embedding := Some v\<rparr>)
        (getTableNameForType this (md_type (initMetadata this m w1))) u w2")
    from that(3) [OF None emb' createMemory_without_embedding [OF fresh valid None emb' cr]]
    show ?thesis .
  qed
qed

lemma createMemory_fresh_metadata:
  assumes fresh: "db_getMemoryById (runtime this) (mem_id m) (world s0) = (Inr None, w1)"
    and valid: "validateMetadata (initMetadata this m w1) = Inr ()"
  shows "content_metadata (content (fst (snd (createMemory this m u s0))))
           = Some (backfillMetadata this m w1 (initMetadata this m w1))"
  using fresh valid by (cases rule: createMemory_fresh_cases [where u = u]) simp_all

text \<open>
  Whatever the path, a record that this call hands to the Store's create is the argument
  object as the call leaves it, and its partition is computed from the type in its metadata.
\<close>

lemma createMemory_created_record:
  assumes mem: "DbCreateMemory m' tbl u'
             \<in> set (drop (length (trace s0)) (trace (snd (snd (createMemory this m u s0)))))"
  shows "\<exists>w1. db_getMemoryById (runtime this) (mem_id m) (world s0) = (Inr None, w1)
            \<and> validateMetadata (initMetadata this m w1) = Inr ()
            \<and> m' = fst (snd (createMemory this m u s0)) \<and> u' = u
            \<and> tbl = getTableNameForType this (md_type (initMetadata this m w1))
            \<and> content_metadata (content m')
                 = Some (backfillMetadata this m w1 (initMetadata this m w1))"
proof -
  obtain r1 w1 where look: "db_getMemoryById (runtime this) (mem_id m) (world s0) = (r1, w1)"
    by (cases "db_getMemoryById (runtime this) (mem_id m) (world s0)")
  show ?thesis
  proof (cases r1)
    case (Inl e)
    with look mem show ?thesis by (simp add: createMemory_lookup_fails)
  next
    case (Inr found)
    show ?thesis
    proof (cases found)
      case (Some r)
      with Inr look mem show ?thesis by (simp add: createMemory_existing)
    next
      case None
      with Inr look have fresh:
        "db_getMemoryById (runtime this) (mem_id m) (world s0) = (Inr None, w1)" by simp
      show ?thesis
      proof (cases "validateMetadata (initMetadata this m w1)")
        case (Inl e)
        with fresh mem show ?thesis by (simp add: createMemory_invalid)
      next
        case (Inr ok)
        then have valid: "validateMetadata (initMetadata this m w1) = Inr ()" by simp
        from fresh valid show ?thesis
        proof (cases rule: createMemory_fresh_cases [where u = u])
          case (with_embedding e r w2)
          with mem fresh valid show ?thesis by simp
        next
          case (embedder_fails e w2)
          with mem fresh valid show ?thesis by simp
        next
          case (without_embedding v r w2 w3)
          with mem fresh valid show ?thesis by simp
        qed
      qed
    qed
  qed
qed

lemma createMemory_created_is_argument:
  "DbCreateMemory m' tbl u'
     \<in> set (drop (length (trace s0)) (trace (snd (snd (createMemory this m u s0)))))
   \<longrightarrow> m' = fst (snd (createMemory this m u s0))"
  using createMemory_created_record [of m' tbl u' s0 this m u] by blast

section \<open>Runs on the concrete runtime\<close>

lemma example_memory_run:
  "createMemory example_manager example_memory False example_state =
     (Inr (), example_memory_persisted,
      \<lparr>world = [(example_memory_persisted, ''knowledge'')],
       trace = [DbGetMemoryById ''m1'',
                LoggerLog ''Creating Memory'' ''m1'' ''hello'',
                UseModel None,
                DbCreateMemory example_memory_persisted ''knowledge'' False]\<rparr>)"
  by (simp add: createMemory_defs example_defs)

lemma example_fact_run:
  "createMemory example_manager example_fact False example_state =
     (Inr (), example_fact_persisted,
      \<lparr>world = [(example_fact_persisted, ''facts'')],
       trace = [DbGetMemoryById ''m4'',
                LoggerLog ''Creating Memory'' ''m4'' ''water is wet'',
                UseModel None,
                DbCreateMemory example_fact_persisted ''facts'' False]\<rparr>)"
  by (simp add: createMemory_defs example_defs)

lemma example_epoch_run:
  "createMemory example_manager example_epoch False example_state =
     (Inr (), example_epoch_persisted,
      \<lparr>world = [(example_epoch_persisted, ''facts'')],
       trace = [DbGetMemoryById ''m5'',
                LoggerLog ''Creating Memory'' ''m5'' ''old news'',
                UseModel None,
                DbCreateMemory example_epoch_persisted ''facts'' False]\<rparr>)"
  by (simp add: createMemory_defs example_defs example_epoch_def example_epoch_persisted_def)

section \<open>Claims about the embedding\<close>




text \<open>
  C8: for every memory with no embedding and non-empty \<^verbatim>\<open>content.text\<close>, if the Embedder
  call on the text fails, \<^verbatim>\<open>addEmbeddingToMemory\<close> catches the failure, logs it and
  invokes the Embedder once more, with \<^verbatim>\<open>null\<close>. Where that call returns the fallback
  vector, as the Embedder's contract says, the memory is returned with that vector and no
  error reaches the caller.
\<close>

theorem addEmbeddingToMemory_fallback:
  assumes "embedding m = None" and "content_text (content m) \<noteq> []"
    and "useModel (runtime this) (Some (content_text (content m))) (world s0) = (Inl err, w1)"
    and "useModel (runtime this) None w1 = (Inr z, w2)"
  shows "addEmbeddingToMemory this m s0 =
           (Inr (m\<lparr>embedding := Some z\<rparr>),
            \<lparr>world = w2,
             trace = trace s0 @ [UseModel (Some (content_text (content m))),
                                 LoggerError ''Failed to generate embedding:'' err,
                                 UseModel None]\<rparr>)"
  using assms
  by (simp add: addEmbeddingToMemory_def call_useModel_def logger_def)

theorem addEmbeddingToMemory_fallback_witness:
  "embedding example_boom = None \<and> content_text (content example_boom) \<noteq> []
   \<and> useModel (runtime example_manager) (Some (content_text (content example_boom)))
        (world example_state) = (Inl (Error ''embedder down''), [])
   \<and> useModel (runtime example_manager) None [] = (Inr [0, 0, 0], [])
   \<and> addEmbeddingToMemory example_manager example_boom example_state =
        (Inr (example_boom\<lparr>embedding := Some [0, 0, 0]\<rparr>),
         \<lparr>world = [],
          trace = [UseModel (Some ''boom''),
                   LoggerError ''Failed to generate embedding:'' (Error ''embedder down''),
                   UseModel None]\<rparr>)"
proof -
  have h1: "embedding example_boom = None" by (simp add: example_boom_def)
  have h2: "content_text (content example_boom) \<noteq> []" by (simp add: example_boom_def)
  have h3: "useModel (runtime example_manager) (Some (content_text (content example_boom)))
        (world example_state) = (Inl (Error ''embedder down''), [])"
    by (simp add: example_defs example_boom_def)
  have h4: "useModel (runtime example_manager) None [] = (Inr [0, 0, 0], [])"
    by (simp add: example_defs)
  from addEmbeddingToMemory_fallback [OF h1 h2 h3 h4] h1 h2 h3 h4 show ?thesis
    by (simp add: example_boom_def example_state_def)
qed

text \<open>
  C9: for every memory \<open>m\<close> whose embedding is already set, \<^verbatim>\<open>addEmbeddingToMemory\<close>
  returns \<open>m\<close> itself; the state is the one it started from, so no Embedder call was made.
\<close>

theorem addEmbeddingToMemory_keeps_embedding:
  "embedding m = Some v \<Longrightarrow> addEmbeddingToMemory this m s = (Inr m, s)"
  by (simp add: addEmbeddingToMemory_def)

theorem addEmbeddingToMemory_keeps_embedding_witness:
  "embedding example_stored = Some [0, 0, 0]
   \<and> addEmbeddingToMemory example_manager example_stored example_state
        = (Inr example_stored, example_state)"
proof -
  have h: "embedding example_stored = Some [0, 0, 0]"
    by (simp add: example_stored_def)
  from addEmbeddingToMemory_keeps_embedding [OF h] h show ?thesis by simp
qed

section \<open>Claims about duplicates and ownership\<close>

text \<open>
  C2: for every memory whose id already names a stored record, \<^verbatim>\<open>createMemory\<close> (with
  any content and any \<^verbatim>\<open>unique\<close> flag) returns without error, leaves its argument as it
  was, and makes no call after the lookup except one debug log: the Store's create is not
  invoked, so the Store is as the lookup left it and the existing record is not overwritten.
\<close>

theorem createMemory_duplicate:
  assumes "db_getMemoryById (runtime this) (mem_id m) (world s0) = (Inr (Some r), w1)"
  shows "createMemory this m unique s0 =
           (Inr (), m,
            \<lparr>world = w1,
             trace = trace s0 @ [DbGetMemoryById (mem_id m),
                                 LoggerDebug ''Memory already exists, skipping'']\<rparr>)"
  using assms
  by (simp add: createMemory_def call_db_getMemoryById_def logger_def)

text \<open>
  On the concrete runtime: after \<open>example_memory\<close> has been created in an empty Store, a
  second create under the same id with other content succeeds and the Store still holds
  the first record alone.
\<close>

theorem createMemory_duplicate_witness:
  "db_getMemoryById (runtime example_manager) (mem_id example_changed)
       (world (snd (snd (createMemory example_manager example_memory False example_state))))
     = (Inr (Some example_memory_persisted), [(example_memory_persisted, ''knowledge'')])
   \<and> content example_changed \<noteq> content example_memory
   \<and> fst (createMemory example_manager example_changed True
        (snd (snd (createMemory example_manager example_memory False example_state))))
     = Inr ()
   \<and> world (snd (snd (createMemory example_manager example_changed True
        (snd (snd (createMemory example_manager example_memory False example_state))))))
     = [(example_memory_persisted, ''knowledge'')]"
proof -
  have h: "db_getMemoryById (runtime example_manager) (mem_id example_changed)
       (world (snd (snd (createMemory example_manager example_memory False example_state))))
     = (Inr (Some example_memory_persisted), [(example_memory_persisted, ''knowledge'')])"
    by (simp add: example_memory_run)
       (simp add: example_manager_def example_runtime_def example_changed_def
          example_memory_persisted_def)
  have d: "content example_changed \<noteq> content example_memory"
    by (simp add: example_changed_def example_memory_def)
  from createMemory_duplicate [OF h, of True] h d show ?thesis by simp
qed

text \<open>
  C5: if the Store holds a record under the id, \<^verbatim>\<open>getMemoryById\<close> returns absent when
  the record's \<^verbatim>\<open>agentId\<close> differs from the runtime's own agent identity, and returns
  the record unchanged when the two are equal.
\<close>

theorem getMemoryById_ownership:
  assumes "db_getMemoryById (runtime this) i (world s0) = (Inr (Some r), w1)"
  shows "(agentId r \<noteq> rt_agentId (runtime this) \<longrightarrow> fst (getMemoryById this i s0) = Inr None)
       \<and> (agentId r = rt_agentId (runtime this) \<longrightarrow> fst (getMemoryById this i s0) = Inr (Some r))"
  using assms
  by (simp add: getMemoryById_def call_db_getMemoryById_def)

theorem getMemoryById_ownership_witness:
  "db_getMemoryById (runtime example_manager) ''m1'' (world example_state_stored)
     = (Inr (Some example_stored), world example_state_stored)
   \<and> agentId example_stored = rt_agentId (runtime example_manager)
   \<and> fst (getMemoryById example_manager ''m1'' example_state_stored) = Inr (Some example_stored)
   \<and> db_getMemoryById (runtime example_other_manager) ''m1'' (world example_state_stored)
     = (Inr (Some example_stored), world example_state_stored)
   \<and> agentId example_stored \<noteq> rt_agentId (runtime example_other_manager)
   \<and> fst (getMemoryById example_other_manager ''m1'' example_state_stored) = Inr None"
proof -
  have h1: "db_getMemoryById (runtime example_manager) ''m1'' (world example_state_stored)
     = (Inr (Some example_stored), world example_state_stored)"
    by (simp add: example_defs)
  have h2: "db_getMemoryById (runtime example_other_manager) ''m1'' (world example_state_stored)
     = (Inr (Some example_stored), world example_state_stored)"
    by (simp add: example_defs example_other_manager_def)
  have own: "agentId example_stored = rt_agentId (runtime example_manager)"
    by (simp add: example_defs)
  have other: "agentId example_stored \<noteq> rt_agentId (runtime example_other_manager)"
    by (simp add: example_defs example_other_manager_def)
  from getMemoryById_ownership [OF h1] getMemoryById_ownership [OF h2] own other h1 h2
  show ?thesis by simp
qed

text \<open>
  C10: a stored record without \<^verbatim>\<open>agentId\<close> is never returned by \<^verbatim>\<open>getMemoryById\<close>
  when the runtime's own agent identity is defined, although the Store returns it: the
  filter of line 282 compares the two with \<^verbatim>\<open>!==\<close>.
\<close>

theorem getMemoryById_shared_hidden:
  assumes "db_getMemoryById (runtime this) i (world s0) = (Inr (Some r), w1)"
    and "agentId r = None" and "rt_agentId (runtime this) = Some a"
  shows "fst (getMemoryById this i s0) = Inr None"
  using assms
  by (simp add: getMemoryById_def call_db_getMemoryById_def)

theorem getMemoryById_shared_hidden_witness:
  "db_getMemoryById (runtime example_manager) ''m2'' (world example_state_stored)
     = (Inr (Some example_shared), world example_state_stored)
   \<and> agentId example_shared = None
   \<and> rt_agentId (runtime example_manager) = Some ''a1''
   \<and> fst (getMemoryById example_manager ''m2'' example_state_stored) = Inr None"
proof -
  have h1: "db_getMemoryById (runtime example_manager) ''m2'' (world example_state_stored)
     = (Inr (Some example_shared), world example_state_stored)"
    by (simp add: example_defs)
  have h2: "agentId example_shared = None" by (simp add: example_defs)
  have h3: "rt_agentId (runtime example_manager) = Some ''a1''" by (simp add: example_defs)
  from getMemoryById_shared_hidden [OF h1 h2 h3] h1 h2 h3 show ?thesis by simp
qed

section \<open>Claims about the metadata\<close>




text \<open>
  C4, as the specification states it: when the memory carries metadata that pass validation,
  every field the caller supplied is left unchanged. This fails: the metadata
  \<^verbatim>\<open>{type: "fact", source: "import", timestamp: 0}\<close> pass validation, and the call replaces
  the supplied timestamp \<^verbatim>\<open>0\<close> by the clock's reading, because line 226 tests the
  truthiness of the field.
\<close>

theorem createMemory_overwrites_epoch_timestamp:
  "db_getMemoryById (runtime example_manager) (mem_id example_epoch) (world example_state)
     = (Inr None, [])
   \<and> content_metadata (content example_epoch)
        = Some (example_fact_metadata\<lparr>md_timestamp := JNum 0\<rparr>)
   \<and> validateMetadata (example_fact_metadata\<lparr>md_timestamp := JNum 0\<rparr>) = Inr ()
   \<and> map_option md_timestamp (content_metadata (content (fst (snd
        (createMemory example_manager example_epoch False example_state)))))
        = Some (JNum 1700000000000)
   \<and> map_option md_timestamp (content_metadata (content (fst (snd
        (createMemory example_manager example_epoch False example_state)))))
        \<noteq> Some (JNum 0)"
  by (simp add: example_epoch_run)
     (simp add: example_defs example_epoch_def example_epoch_persisted_def validateMetadata_def)

text \<open>
  C4, amended: for every memory passed to \<^verbatim>\<open>createMemory\<close> that is not a duplicate and
  carries metadata that pass validation, each of \<^verbatim>\<open>timestamp\<close>, \<^verbatim>\<open>scope\<close> and
  \<^verbatim>\<open>source\<close> receives its default (the clock's reading; private or shared after the
  truthiness of \<^verbatim>\<open>agentId\<close>; the manager's partition name) exactly when its value is
  falsy, that is absent, \<^verbatim>\<open>null\<close>, \<^verbatim>\<open>false\<close>, \<^verbatim>\<open>0\<close>, \<^verbatim>\<open>NaN\<close> or the empty string.
  A truthy value of these three fields, and \<^verbatim>\<open>type\<close>, \<^verbatim>\<open>sourceId\<close>, \<^verbatim>\<open>chunkIndex\<close>
  and \<^verbatim>\<open>tags\<close> in every case, are left as the caller supplied them. The record handed
  to the Store's create, if any, is the argument with these metadata.
\<close>

theorem createMemory_backfill:
  assumes fresh: "db_getMemoryById (runtime this) (mem_id m) (world s0) = (Inr None, w1)"
    and present: "content_metadata (content m) = Some md"
    and valid: "validateMetadata md = Inr ()"
  shows "content_metadata (content (fst (snd (createMemory this m u s0)))) =
           Some (md\<lparr>md_source :=
                       (if truthy (md_source md) then md_source md else JStr (tableName this)),
                     md_scope :=
                       (if truthy (md_scope md) then md_scope md
                        else JStr (if truthy_id (agentId m) then ''private'' else ''shared'')),
                     md_timestamp :=
                       (if truthy (md_timestamp md) then md_timestamp md
                        else JNum (Date_now (runtime this) w1))\<rparr>)
       \<and> (DbCreateMemory m' tbl u'
             \<in> set (drop (length (trace s0)) (trace (snd (snd (createMemory this m u s0)))))
           \<longrightarrow> m' = fst (snd (createMemory this m u s0)))"
proof -
  from present have init: "initMetadata this m w1 = md"
    by (simp add: initMetadata_def)
  with valid have valid': "validateMetadata (initMetadata this m w1) = Inr ()"
    by simp
  have "content_metadata (content (fst (snd (createMemory this m u s0))))
          = Some (backfillMetadata this m w1 md)"
    by (simp add: createMemory_fresh_metadata [OF fresh valid'] init)
  then show ?thesis
    using createMemory_created_is_argument [of m' tbl u' s0 this m u]
    by (simp add: backfillMetadata_def ensureSource_def ensureScope_def ensureTimestamp_def)
qed

theorem createMemory_backfill_witness:
  "db_getMemoryById (runtime example_manager) (mem_id example_fact) (world example_state)
     = (Inr None, [])
   \<and> content_metadata (content example_fact) = Some example_fact_metadata
   \<and> validateMetadata example_fact_metadata = Inr ()
   \<and> content_metadata (content (fst (snd
        (createMemory example_manager example_fact False example_state)))) =
        Some \<lparr>md_type = JStr ''fact'', md_sourceId = JUndefined, md_chunkIndex = JUndefined,
              md_source = JStr ''import'', md_scope = JStr ''private'', md_tags = JUndefined,
              md_timestamp = JNum 1700000000000\<rparr>
   \<and> DbCreateMemory example_fact_persisted ''facts'' False
        \<in> set (drop (length (trace example_state))
             (trace (snd (snd (createMemory example_manager example_fact False example_state)))))
   \<and> example_fact_persisted
        = fst (snd (createMemory example_manager example_fact False example_state))"
proof -
  have h1: "db_getMemoryById (runtime example_manager) (mem_id example_fact)
      (world example_state) = (Inr None, [])"
    by (simp add: example_defs)
  have h2: "content_metadata (content example_fact) = Some example_fact_metadata"
    by (simp add: example_defs)
  have h3: "validateMetadata example_fact_metadata = Inr ()"
    by (simp add: validateMetadata_def example_fact_metadata_def)
  have h4: "DbCreateMemory example_fact_persisted ''facts'' False
        \<in> set (drop (length (trace example_state))
             (trace (snd (snd (createMemory example_manager example_fact False example_state)))))"
    by (simp add: example_fact_run) (simp add: example_state_def)
  note inst = createMemory_backfill
         [OF h1 h2 h3, of False example_fact_persisted "''facts''" False]
  from inst have c1: "content_metadata (content (fst (snd
        (createMemory example_manager example_fact False example_state)))) =
        Some \<lparr>md_type = JStr ''fact'', md_sourceId = JUndefined, md_chunkIndex = JUndefined,
              md_source = JStr ''import'', md_scope = JStr ''private'', md_tags = JUndefined,
              md_timestamp = JNum 1700000000000\<rparr>"
    by (simp add: example_manager_def example_runtime_def example_fact_def
        example_fact_metadata_def)
  from inst h4 have c2: "example_fact_persisted
        = fst (snd (createMemory example_manager example_fact False example_state))"
    by (simp only:)
  from h1 h2 h3 c1 h4 c2 show ?thesis by (simp only: simp_thms)
qed

text \<open>
  C6, as the specification states it: a memory that is not a duplicate and has no
  \<^verbatim>\<open>content.metadata\<close> receives \<^verbatim>\<open>scope\<close> private when \<^verbatim>\<open>agentId\<close> is present and
  shared otherwise. This fails: line 215 tests the truthiness of \<^verbatim>\<open>agentId\<close>, and the
  empty string is falsy. A memory whose \<^verbatim>\<open>agentId\<close> is present and is the empty string
  leaves the call with \<^verbatim>\<open>scope\<close> shared.
\<close>

theorem createMemory_empty_agentId_shared:
  "db_getMemoryById (runtime example_manager) (mem_id example_unnamed_agent)
       (world example_state) = (Inr None, [])
   \<and> content_metadata (content example_unnamed_agent) = None
   \<and> agentId example_unnamed_agent \<noteq> None
   \<and> map_option md_scope (content_metadata (content (fst (snd
        (createMemory example_manager example_unnamed_agent False example_state)))))
        = Some (JStr ''shared'')
   \<and> map_option md_scope (content_metadata (content (fst (snd
        (createMemory example_manager example_unnamed_agent False example_state)))))
        \<noteq> Some (JStr ''private'')"
  by (simp add: createMemory_defs example_runtime_def example_manager_def example_state_def
      example_unnamed_agent_def)

text \<open>
  C6, amended: for every memory passed to \<^verbatim>\<open>createMemory\<close> that is not a duplicate and
  has no \<^verbatim>\<open>content.metadata\<close>, the call gives it metadata with exactly: \<^verbatim>\<open>type\<close>
  document when the manager's partition is knowledge and message otherwise; \<^verbatim>\<open>source\<close>
  the manager's partition name; \<^verbatim>\<open>scope\<close> private when \<^verbatim>\<open>agentId\<close> is truthy (present
  and not the empty string) and shared otherwise; \<^verbatim>\<open>timestamp\<close> the clock's reading;
  and no other field. The record handed to the Store's create, if any, is the argument
  with these metadata.
\<close>

theorem createMemory_default_metadata:
  assumes fresh: "db_getMemoryById (runtime this) (mem_id m) (world s0) = (Inr None, w1)"
    and absent: "content_metadata (content m) = None"
  shows "content_metadata (content (fst (snd (createMemory this m u s0)))) =
           Some \<lparr>md_type = JStr (if tableName this = ''knowledge'' then ''document'' else ''message''),
                 md_sourceId = JUndefined,
                 md_chunkIndex = JUndefined,
                 md_source = JStr (tableName this),
                 md_scope = JStr (if truthy_id (agentId m) then ''private'' else ''shared''),
                 md_tags = JUndefined,
                 md_timestamp = JNum (Date_now (runtime this) w1)\<rparr>
       \<and> (DbCreateMemory m' tbl u'
             \<in> set (drop (length (trace s0)) (trace (snd (snd (createMemory this m u s0)))))
           \<longrightarrow> m' = fst (snd (createMemory this m u s0)))"
proof -
  from absent have init: "initMetadata this m w1 = defaultMetadata this m w1"
    by (simp add: initMetadata_def)
  then have valid: "validateMetadata (initMetadata this m w1) = Inr ()"
    by (simp add: validateMetadata_defaultMetadata)
  have stored: "content_metadata (content (fst (snd (createMemory this m u s0))))
          = Some (defaultMetadata this m w1)"
    by (simp add: createMemory_fresh_metadata [OF fresh valid] init backfill_defaultMetadata)
  have "defaultMetadata this m w1 =
           \<lparr>md_type = JStr (if tableName this = ''knowledge'' then ''document'' else ''message''),
                 md_sourceId = JUndefined,
                 md_chunkIndex = JUndefined,
                 md_source = JStr (tableName this),
                 md_scope = JStr (if truthy_id (agentId m) then ''private'' else ''shared''),
                 md_tags = JUndefined,
                 md_timestamp = JNum (Date_now (runtime this) w1)\<rparr>"
    by (simp add: defaultMetadata_def)
  with stored createMemory_created_is_argument [of m' tbl u' s0 this m u]
  show ?thesis by (simp only: simp_thms)
qed

theorem createMemory_default_metadata_witness:
  "db_getMemoryById (runtime example_manager) (mem_id example_memory) (world example_state)
     = (Inr None, [])
   \<and> content_metadata (content example_memory) = None
   \<and> truthy_id (agentId example_memory)
   \<and> content_metadata (content (fst (snd
        (createMemory example_manager example_memory False example_state)))) =
        Some \<lparr>md_type = JStr ''document'', md_sourceId = JUndefined, md_chunkIndex = JUndefined,
              md_source = JStr ''knowledge'', md_scope = JStr ''private'', md_tags = JUndefined,
              md_timestamp = JNum 1700000000000\<rparr>
   \<and> DbCreateMemory example_memory_persisted ''knowledge'' False
        \<in> set (drop (length (trace example_state))
             (trace (snd (snd (createMemory example_manager example_memory False example_state)))))
   \<and> example_memory_persisted
        = fst (snd (createMemory example_manager example_memory False example_state))"
proof -
  have h1: "db_getMemoryById (runtime example_manager) (mem_id example_memory)
      (world example_state) = (Inr None, [])"
    by (simp add: example_defs)
  have h2: "content_metadata (content example_memory) = None" by (simp add: example_defs)
  have h3: "truthy_id (agentId example_memory)" by (simp add: example_defs)
  have h4: "DbCreateMemory example_memory_persisted ''knowledge'' False
        \<in> set (drop (length (trace example_state))
             (trace (snd (snd (createMemory example_manager example_memory False example_state)))))"
    by (simp add: example_memory_run) (simp add: example_state_def)
  note inst = createMemory_default_metadata
         [OF h1 h2, of False example_memory_persisted "''knowledge''" False]
  from inst have c1: "content_metadata (content (fst (snd
        (createMemory example_manager example_memory False example_state)))) =
        Some \<lparr>md_type = JStr ''document'', md_sourceId = JUndefined, md_chunkIndex = JUndefined,
              md_source = JStr ''knowledge'', md_scope = JStr ''private'', md_tags = JUndefined,
              md_timestamp = JNum 1700000000000\<rparr>"
    by (simp add: example_manager_def example_runtime_def example_memory_def)
  from inst h4 have c2: "example_memory_persisted
        = fst (snd (createMemory example_manager example_memory False example_state))"
    by (simp only:)
  from h1 h2 h3 c1 h4 c2 show ?thesis by (simp only: simp_thms)
qed

text \<open>
  C7: the partition that \<^verbatim>\<open>createMemory\<close> passes to the Store's create is computed by
  \<^verbatim>\<open>getTableNameForType\<close> from the type in the metadata of the record it hands over, and
  from nothing else: document and fragment give knowledge, message gives messages, fact
  gives facts, and any other type gives the manager's own partition name.
\<close>

theorem createMemory_partition:
  "getTableNameForType this (JStr ''document'') = ''knowledge''
   \<and> getTableNameForType this (JStr ''fragment'') = ''knowledge''
   \<and> getTableNameForType this (JStr ''message'') = ''messages''
   \<and> getTableNameForType this (JStr ''fact'') = ''facts''
   \<and> (t \<notin> {JStr ''document'', JStr ''fragment'', JStr ''message'', JStr ''fact''}
        \<longrightarrow> getTableNameForType this t = tableName this)
   \<and> (DbCreateMemory m' tbl u'
         \<in> set (drop (length (trace s0)) (trace (snd (snd (createMemory this m u s0)))))
        \<longrightarrow> (\<exists>md. content_metadata (content m') = Some md
                  \<and> tbl = getTableNameForType this (md_type md)))"
proof -
  have "DbCreateMemory m' tbl u'
         \<in> set (drop (length (trace s0)) (trace (snd (snd (createMemory this m u s0)))))
        \<longrightarrow> (\<exists>md. content_metadata (content m') = Some md
                  \<and> tbl = getTableNameForType this (md_type md))"
    using createMemory_created_record [of m' tbl u' s0 this m u] by auto
  then show ?thesis
    by (simp add: getTableNameForType_def)
qed

theorem createMemory_partition_witness:
  "JStr ''invalid'' \<notin> {JStr ''document'', JStr ''fragment'', JStr ''message'', JStr ''fact''}
   \<and> getTableNameForType example_manager (JStr ''invalid'') = ''knowledge''
   \<and> DbCreateMemory example_fact_persisted ''facts'' False
        \<in> set (drop (length (trace example_state))
             (trace (snd (snd (createMemory example_manager example_fact False example_state)))))
   \<and> (\<exists>md. content_metadata (content example_fact_persisted) = Some md
           \<and> ''facts'' = getTableNameForType example_manager (md_type md))
   \<and> md_type (the (content_metadata (content example_fact_persisted))) = JStr ''fact''"
proof -
  have h: "DbCreateMemory example_fact_persisted ''facts'' False
        \<in> set (drop (length (trace example_state))
             (trace (snd (snd (createMemory example_manager example_fact False example_state)))))"
    by (simp add: example_fact_run) (simp add: example_state_def)
  note inst = createMemory_partition
    [of example_manager "JStr ''invalid''" example_fact_persisted "''facts''" False
        example_state example_fact False]
  have c0: "JStr ''invalid''
      \<notin> {JStr ''document'', JStr ''fragment'', JStr ''message'', JStr ''fact''}"
    by simp
  from inst have c1: "getTableNameForType example_manager (JStr ''invalid'') = ''knowledge''"
    by (simp add: example_manager_def)
  from inst h have c2: "\<exists>md. content_metadata (content example_fact_persisted) = Some md
           \<and> ''facts'' = getTableNameForType example_manager (md_type md)"
    by (simp only: simp_thms)
  have c3: "md_type (the (content_metadata (content example_fact_persisted))) = JStr ''fact''"
    by (simp add: example_fact_persisted_def)
  from c0 c1 h c2 c3 show ?thesis by (simp only: simp_thms)
qed

end
